theory Spec2Isabelle
  imports Main "HOL-Library.AList"
begin

section \<open>TACO utilities (UtilHelper) and the kit command: definitions\<close>

subsection \<open>JavaScript strings\<close>

text \<open>
  A JavaScript string is modelled as a \<^typ>\<open>string\<close>: a list of characters, each read
  through its character code (\<open>charCodeAt\<close> is \<^term>\<open>of_char c :: nat\<close>).
  The double quote is \<open>CHR 0x22\<close>, the backslash \<open>CHR 0x5C\<close>, the apostrophe
  \<open>CHR 0x27\<close>.
\<close>

text \<open>
  \<open>xs.indexOf(c)\<close>, of a string with a one-character needle and of an array alike: the
  first position of \<open>c\<close>, or -1.
\<close>

fun indexOf :: "'a list \<Rightarrow> 'a \<Rightarrow> int" where
  "indexOf [] c = - 1"
| "indexOf (x # xs) c =
     (if x = c then 0
      else (let r = indexOf xs c in if r < 0 then - 1 else r + 1))"

text \<open>\<open>input.replace(/"/g, "\\\"")\<close>: every double quote becomes backslash, double quote.\<close>

fun replaceQuotes :: "string \<Rightarrow> string" where
  "replaceQuotes [] = []"
| "replaceQuotes (c # cs) =
     (if c = CHR 0x22 then CHR 0x5C # CHR 0x22 # replaceQuotes cs
      else c # replaceQuotes cs)"

text \<open>
  \<^verbatim>\<open>return (input.indexOf(" ") > -1) ? "\"" + input.replace(/"/g, "\\\"") + "\"" : input;\<close>
\<close>

definition quotesAroundIfNecessary :: "string \<Rightarrow> string" where
  "quotesAroundIfNecessary input =
     (if indexOf input CHR '' '' > - 1
      then [CHR 0x22] @ replaceQuotes input @ [CHR 0x22]
      else input)"

subsection \<open>App names\<close>

text \<open>
  The table \<open>InvalidAppNameChars\<close>, keyed by character code, as the source writes it:
  \<^verbatim>\<open>{ 34: "\"", 36: "$", 38: "&", 39: "/", 60: "<", 92: "\\" }\<close>
\<close>

definition InvalidAppNameChars :: "(nat \<times> string) list" where
  "InvalidAppNameChars =
     [(34, [CHR 0x22]), (36, ''$''), (38, ''&''), (39, ''/''), (60, ''<''), (92, [CHR 0x5C])]"

text \<open>JavaScript truthiness of a looked-up string: \<open>undefined\<close> and \<open>""\<close> are falsy.\<close>

fun truthy :: "string option \<Rightarrow> bool" where
  "truthy None = False"
| "truthy (Some s) = (s \<noteq> [])"

text \<open>
  \<^verbatim>\<open>
  for (var i = 0, n = str.length; i < n; i++) {
      var code = str.charCodeAt(i);
      if (code < 32 || UtilHelper.InvalidAppNameChars[code]) { return false; }
  }
  return true;
  \<close>
\<close>

fun isValidCordovaAppName :: "string \<Rightarrow> bool" where
  "isValidCordovaAppName [] = True"
| "isValidCordovaAppName (c # cs) =
     (let code = (of_char c :: nat) in
      if code < 32 \<or> truthy (map_of InvalidAppNameChars code) then False
      else isValidCordovaAppName cs)"

text \<open>
  \<open>Object.keys(InvalidAppNameChars).map(c => InvalidAppNameChars[c])\<close>: integer keys are
  enumerated in ascending order, which is the order of the table. Every key is looked up
  in the table it comes from, so the \<open>None\<close> branch (JavaScript's \<open>undefined\<close>) is
  never taken.
\<close>

definition invalidAppNameCharacters :: "string list" where
  "invalidAppNameCharacters =
     map (\<lambda>c. case map_of InvalidAppNameChars c of Some s \<Rightarrow> s | None \<Rightarrow> ''undefined'')
       (map fst InvalidAppNameChars)"

subsection \<open>Errors and promises\<close>

text \<open>
  The error codes the sources name: \<open>FailedFileRead\<close>, \<open>FailedFileWrite\<close> and
  \<open>FailedRecursiveCopy\<close> of taco-utils, \<open>TacoKitsExceptionInvalidKit\<close> of taco-kits
  and \<open>ErrorInvalidVersion\<close> of taco-cli (the specification calls the last two
  \<open>InvalidKit\<close> and \<open>InvalidVersion\<close>).
\<close>

datatype TacoErrorCode =
    FailedFileRead
  | FailedFileWrite
  | FailedRecursiveCopy
  | TacoKitsExceptionInvalidKit
  | ErrorInvalidVersion

record TacoError =
  errorCode :: TacoErrorCode
  innerError :: string
  errorArgs :: "string list"

text \<open>
  Modelled from the spec: \<open>errorHelper.wrap\<close> of tacoErrorHelper, which is not among
  the sources. It builds the structured error: the code, the wrapped error and the
  contextual data (here the paths) it is given.
\<close>

definition wrap :: "TacoErrorCode \<Rightarrow> string \<Rightarrow> string list \<Rightarrow> TacoError" where
  "wrap code e args = \<lparr>errorCode = code, innerError = e, errorArgs = args\<rparr>"

text \<open>What JavaScript throws: \<open>new Error(message)\<close>, a \<open>TypeError\<close>, or a file-system
  error with its \<open>code\<close>.\<close>

datatype js_exception = Error string | TypeError | FsError string

text \<open>A Q deferred: it is settled once, and a later \<open>resolve\<close> or \<open>reject\<close> changes
  nothing.\<close>

datatype 'a promise = Pending | Fulfilled 'a | Rejected TacoError

fun resolve :: "'a promise \<Rightarrow> 'a \<Rightarrow> 'a promise" where
  "resolve Pending v = Fulfilled v"
| "resolve p v = p"

fun reject :: "'a promise \<Rightarrow> TacoError \<Rightarrow> 'a promise" where
  "reject Pending e = Rejected e"
| "reject p e = p"

subsection \<open>copyFile\<close>

text \<open>
  The events the two streams of \<open>copyFile\<close> can emit to the listeners it registers:
  \<open>finish\<close> and \<open>error\<close> of \<open>newFile\<close> (the write stream on \<open>to\<close>), \<open>error\<close> of
  \<open>oldFile\<close> (the read stream on \<open>from\<close>).
\<close>

datatype stream_event = NewFileFinish | NewFileError string | OldFileError string

text \<open>
  \<^verbatim>\<open>
  newFile.on("finish", function () { deferred.resolve({}); });
  newFile.on("error", function (e) {
      deferred.reject(errorHelper.wrap(TacoErrorCodes.FailedFileRead, e, to)); });
  oldFile.on("error", function (e) {
      deferred.reject(errorHelper.wrap(TacoErrorCodes.FailedFileWrite, e, from)); });
  \<close>
\<close>

fun copyFileListener :: "string \<Rightarrow> string \<Rightarrow> unit promise \<Rightarrow> stream_event \<Rightarrow> unit promise" where
  "copyFileListener from to deferred NewFileFinish = resolve deferred ()"
| "copyFileListener from to deferred (NewFileError e) =
     reject deferred (wrap FailedFileRead e [to])"
| "copyFileListener from to deferred (OldFileError e) =
     reject deferred (wrap FailedFileWrite e [from])"

text \<open>The promise \<open>copyFile(from, to)\<close> returns, after the streams emitted \<open>events\<close>.\<close>

definition copyFile :: "string \<Rightarrow> string \<Rightarrow> stream_event list \<Rightarrow> unit promise" where
  "copyFile from to events = foldl (copyFileListener from to) Pending events"

subsection \<open>tacoHome\<close>

text \<open>
  \<open>path.join(process.env[name], leaf)\<close>: \<open>path.join\<close> itself is Node's and is a
  parameter; on a variable that is not set it is given \<open>undefined\<close> and throws a
  \<open>TypeError\<close>.
\<close>

definition joinEnv ::
  "(string \<Rightarrow> string \<Rightarrow> string) \<Rightarrow> string option \<Rightarrow> string \<Rightarrow> js_exception + string" where
  "joinEnv pjoin dir leaf = (case dir of None \<Rightarrow> Inl TypeError | Some d \<Rightarrow> Inr (pjoin d leaf))"

text \<open>
  \<^verbatim>\<open>
  switch (os.platform()) {
      case "win32": return path.join(process.env["APPDATA"], "taco_home");
      case "darwin":
      case "linux": return path.join(process.env["HOME"], ".taco_home");
      default: throw new Error("UnexpectedPlatform");
  }
  \<close>
\<close>

definition platformTacoHome ::
  "(string \<Rightarrow> string \<Rightarrow> string) \<Rightarrow> (string \<rightharpoonup> string) \<Rightarrow> string \<Rightarrow> js_exception + string" where
  "platformTacoHome pjoin env plat =
     (if plat = ''win32'' then joinEnv pjoin (env ''APPDATA'') ''taco_home''
      else if plat = ''darwin'' \<or> plat = ''linux'' then joinEnv pjoin (env ''HOME'') ''.taco_home''
      else Inl (Error ''UnexpectedPlatform''))"

text \<open>
  \<^verbatim>\<open>if (process.env["TACO_HOME"]) { return process.env["TACO_HOME"]; }\<close>
  The test is JavaScript truthiness: a variable set to the empty string counts as unset.
\<close>

definition tacoHome ::
  "(string \<Rightarrow> string \<Rightarrow> string) \<Rightarrow> (string \<rightharpoonup> string) \<Rightarrow> string \<Rightarrow> js_exception + string" where
  "tacoHome pjoin env plat =
     (case env ''TACO_HOME'' of
        Some v \<Rightarrow> if v \<noteq> [] then Inr v else platformTacoHome pjoin env plat
      | None \<Rightarrow> platformTacoHome pjoin env plat)"

subsection \<open>cleanseOptions\<close>

text \<open>
  Objects live in a heap, so that "a new dictionary" and "the input is not modified" can
  be said: an address is an index into the list of objects. A value is \<open>undefined\<close>,
  \<open>null\<close>, a primitive or a reference to an object.
\<close>

datatype 'v jsval = Undefined | Null | Prim 'v | Ref nat

text \<open>
  An object is known by its enumerable properties: its own ones, in enumeration order,
  and the ones it inherits along its prototype chain, nearest first. (The chain is kept
  flattened: \<open>cleanseOptions\<close> only reads \<open>options\<close>, and the one object it writes is
  new, so no other object inherits from it.)
\<close>

record 'v jsobject =
  own :: "(string \<times> 'v jsval) list"
  inherited :: "(string \<times> 'v jsval) list"

type_synonym 'v heap = "'v jsobject list"

text \<open>
  \<open>{}\<close>: a fresh object without own properties, at an address no object of the heap
  has. Its prototype is \<open>Object.prototype\<close>, whose enumerable properties (none, unless a
  program has added some) are the parameter \<open>objectPrototype\<close>.
\<close>

definition newObject :: "'v heap \<Rightarrow> (string \<times> 'v jsval) list \<Rightarrow> nat \<times> 'v heap" where
  "newObject h objectPrototype = (length h, h @ [\<lparr>own = [], inherited = objectPrototype\<rparr>])"

text \<open>Each name once, at its first place.\<close>

fun firstOccurrences :: "'a list \<Rightarrow> 'a list" where
  "firstOccurrences [] = []"
| "firstOccurrences (x # xs) = x # filter (\<lambda>y. y \<noteq> x) (firstOccurrences xs)"

text \<open>
  \<open>for (var opt in obj)\<close> visits the enumerable properties of the object, own and
  inherited, each name once.
\<close>

definition forInKeys :: "'v heap \<Rightarrow> nat \<Rightarrow> string list" where
  "forInKeys h a =
     (if a < length h
      then firstOccurrences (map fst (own (h ! a)) @ map fst (inherited (h ! a)))
      else [])"

text \<open>
  \<open>obj[k]\<close> for a name the loop visits: the own property, else the inherited one.
\<close>

definition getProp :: "'v heap \<Rightarrow> nat \<Rightarrow> string \<Rightarrow> 'v jsval" where
  "getProp h a k =
     (if a < length h
      then (case map_of (own (h ! a) @ inherited (h ! a)) k of None \<Rightarrow> Undefined | Some v \<Rightarrow> v)
      else Undefined)"

text \<open>
  The setter of \<open>Object.prototype.__proto__\<close>: given an object it makes it the
  prototype, given \<open>null\<close> it removes the prototype, and any other value is ignored. A
  reference is to an object of the heap.
\<close>

definition setPrototype :: "'v heap \<Rightarrow> nat \<Rightarrow> 'v jsval \<Rightarrow> 'v heap" where
  "setPrototype h a v =
     (case v of
        Ref p \<Rightarrow>
          (if p < length h then h[a := (h ! a)\<lparr>inherited := own (h ! p) @ inherited (h ! p)\<rparr>]
           else h)
      | Null \<Rightarrow> h[a := (h ! a)\<lparr>inherited := []\<rparr>]
      | Undefined \<Rightarrow> h
      | Prim x \<Rightarrow> h)"

text \<open>
  \<open>obj[k] = v\<close> on an object that, like \<open>cleansed\<close>, was made by \<open>{}\<close>: the name
  \<open>__proto__\<close> is not stored, it runs the setter above (the loop visits a name once, so
  it runs while the prototype is still \<open>Object.prototype\<close>); every other name becomes
  or updates an own property.
\<close>

definition setProp :: "'v heap \<Rightarrow> nat \<Rightarrow> string \<Rightarrow> 'v jsval \<Rightarrow> 'v heap" where
  "setProp h a k v =
     (if a < length h
      then (if k = ''__proto__'' then setPrototype h a v
            else h[a := (h ! a)\<lparr>own := AList.update k v (own (h ! a))\<rparr>])
      else h)"

text \<open>\<open>!exclude || exclude.indexOf(opt) < 0\<close>; \<open>None\<close> is a null or undefined list.\<close>

definition notExcluded :: "string list option \<Rightarrow> string \<Rightarrow> bool" where
  "notExcluded exclude opt =
     (case exclude of None \<Rightarrow> True | Some ex \<Rightarrow> indexOf ex opt < 0)"

text \<open>
  The body of the loop, over the names still to visit:
  \<^verbatim>\<open>
  for (var opt in options) {
      if (!exclude || exclude.indexOf(opt) < 0) { cleansed[opt] = options[opt]; }
  }
  \<close>
\<close>

fun cleanseLoop ::
  "'v heap \<Rightarrow> nat \<Rightarrow> string list option \<Rightarrow> nat \<Rightarrow> string list \<Rightarrow> 'v heap" where
  "cleanseLoop h options exclude cleansed [] = h"
| "cleanseLoop h options exclude cleansed (opt # opts) =
     (if notExcluded exclude opt
      then cleanseLoop (setProp h cleansed opt (getProp h options opt))
             options exclude cleansed opts
      else cleanseLoop h options exclude cleansed opts)"

text \<open>\<open>cleanseOptions(options, exclude)\<close>: the address of the result and the heap after.\<close>

definition cleanseOptions ::
  "'v heap \<Rightarrow> (string \<times> 'v jsval) list \<Rightarrow> nat \<Rightarrow> string list option \<Rightarrow> nat \<times> 'v heap" where
  "cleanseOptions h objectPrototype options exclude =
     (case newObject h objectPrototype of
        (cleansed, h1) \<Rightarrow> (cleansed, cleanseLoop h1 options exclude cleansed (forInKeys h1 options)))"

subsection \<open>isPathValid\<close>

text \<open>
  What \<open>isPathValid\<close> uses of Node and of the machine, as parameters: \<open>os.platform()\<close>,
  \<open>path.sep\<close>, \<open>os.tmpdir()\<close>, \<open>path.join\<close>, and over a file-system state
  \<open>'fs\<close> the calls \<open>fs.existsSync\<close>, \<open>fs.mkdirSync\<close> (\<open>Inl code\<close> when it throws an
  error with that \<open>code\<close>, \<open>Inr\<close> the state with the directory made) and \<open>rimraf\<close>
  (the state once the removal has run; its errors are ignored by the empty callback).
\<close>

record 'fs host =
  os_platform :: string
  path_sep :: char
  os_tmpdir :: string
  path_join :: "string \<Rightarrow> string \<Rightarrow> string"
  fs_existsSync :: "'fs \<Rightarrow> string \<Rightarrow> bool"
  fs_mkdirSync :: "'fs \<Rightarrow> string \<Rightarrow> string + 'fs"
  rimraf :: "'fs \<Rightarrow> string \<Rightarrow> 'fs"

text \<open>\<open>str.split(sep)\<close> for a one-character separator: never empty, \<open>"".split(sep)\<close> is
  \<open>[""]\<close>.\<close>

fun split :: "char \<Rightarrow> string \<Rightarrow> string list" where
  "split c [] = [[]]"
| "split c (x # xs) =
     (if x = c then [] # split c xs
      else (case split c xs of [] \<Rightarrow> [[x]] | s # ss \<Rightarrow> (x # s) # ss))"

text \<open>\<open>/^[a-zA-Z]:$/.test(segment)\<close>: one ASCII letter and a colon, nothing else.\<close>

definition isLetter :: "char \<Rightarrow> bool" where
  "isLetter c = (let n = (of_char c :: nat) in (65 \<le> n \<and> n \<le> 90) \<or> (97 \<le> n \<and> n \<le> 122))"

fun isDriveLetter :: "string \<Rightarrow> bool" where
  "isDriveLetter [l, c] = (isLetter l \<and> c = CHR '':'')"
| "isDriveLetter s = False"

text \<open>
  The callback given to \<open>some\<close>, on the variables it closes over (the file system and
  \<open>currentPath\<close>):
  \<^verbatim>\<open>
  if (index === 0 && os.platform() === "win32" && /^[a-zA-Z]:$/.test(segment)) { return false; }
  try {
      var nextPath = path.join(currentPath, segment);
      fs.mkdirSync(nextPath);
      currentPath = nextPath;
  } catch (err) {
      if (err.code === "ENOENT") { return true; }
  }
  return false;
  \<close>
\<close>

definition testSegment :: "'fs host \<Rightarrow> 'fs \<times> string \<Rightarrow> string \<Rightarrow> nat \<Rightarrow> bool \<times> ('fs \<times> string)" where
  "testSegment H st segment index =
     (case st of (fs, currentPath) \<Rightarrow>
        if index = 0 \<and> os_platform H = ''win32'' \<and> isDriveLetter segment then (False, st)
        else
          (let nextPath = path_join H currentPath segment in
           case fs_mkdirSync H fs nextPath of
             Inr fs' \<Rightarrow> (False, (fs', nextPath))
           | Inl code \<Rightarrow> if code = ''ENOENT'' then (True, st) else (False, st)))"

text \<open>\<open>Array.prototype.some\<close> with a callback that has a state: it stops at the first
  element the callback answers \<open>true\<close> for.\<close>

fun some_st :: "('s \<Rightarrow> 'a \<Rightarrow> nat \<Rightarrow> bool \<times> 's) \<Rightarrow> 's \<Rightarrow> nat \<Rightarrow> 'a list \<Rightarrow> bool \<times> 's" where
  "some_st f s index [] = (False, s)"
| "some_st f s index (x # xs) =
     (case f s x index of
        (True, s') \<Rightarrow> (True, s')
      | (False, s') \<Rightarrow> some_st f s' (Suc index) xs)"

text \<open>
  The scratch directory's name, \<open>rnd n\<close> being the result of the n-th call of
  \<open>crypto.pseudoRandomBytes(20).toString("hex")\<close>:
  \<^verbatim>\<open>
  var testDir = crypto.pseudoRandomBytes(20).toString("hex");
  while (fs.existsSync(path.join(tmpDir, testDir))) {
      testDir = crypto.pseudoRandomBytes(20).toString("hex");
  }
  \<close>
  The loop ends only when a name is free: not ending is the value \<open>None\<close>.
\<close>

partial_function (option) freshTestDir ::
  "'fs host \<Rightarrow> (nat \<Rightarrow> string) \<Rightarrow> 'fs \<Rightarrow> nat \<Rightarrow> string option" where
  "freshTestDir H rnd fs n =
     (if fs_existsSync H fs (path_join H (os_tmpdir H) (rnd n))
      then freshTestDir H rnd fs (Suc n)
      else Some (rnd n))"

text \<open>
  \<open>isPathValid(pathToTest)\<close>: \<open>None\<close> when the loop above does not end, an exception
  when the scratch directory cannot be made (that \<open>mkdirSync\<close> is outside any \<open>try\<close>),
  otherwise the answer, with the file system as \<open>rimraf(currentPath)\<close> leaves it.
\<close>

definition isPathValid ::
  "'fs host \<Rightarrow> (nat \<Rightarrow> string) \<Rightarrow> 'fs \<Rightarrow> string \<Rightarrow> ((js_exception + bool) \<times> 'fs) option" where
  "isPathValid H rnd fs pathToTest =
     (case freshTestDir H rnd fs 0 of
        None \<Rightarrow> None
      | Some testDir \<Rightarrow>
          (let currentPath = path_join H (os_tmpdir H) testDir in
           case fs_mkdirSync H fs currentPath of
             Inl code \<Rightarrow> Some (Inl (FsError code), fs)
           | Inr fs1 \<Rightarrow>
               (case some_st (testSegment H) (fs1, currentPath) 0 (split (path_sep H) pathToTest) of
                  (hasInvalidSegments, fs2, finalPath) \<Rightarrow>
                    Some (Inr (\<not> hasInvalidSegments), rimraf H fs2 finalPath))))"






text \<open>
  A small host to run \<open>isPathValid\<close> on: the file system is the list of the directories
  that exist, \<open>mkdirSync\<close> answers \<open>EEXIST\<close> for one that exists and \<open>ENOENT\<close> for a
  name (below the temporary directory) with a character the host rejects, \<open>rimraf\<close>
  removes a directory and all below it.
\<close>

definition treeHost :: "string \<Rightarrow> char \<Rightarrow> string \<Rightarrow> string \<Rightarrow> string list host" where
  "treeHost plat sepc tmp badChars =
     \<lparr>os_platform = plat, path_sep = sepc, os_tmpdir = tmp,
      path_join = (\<lambda>a b. if b = [] then a else a @ [sepc] @ b),
      fs_existsSync = (\<lambda>fs p. p \<in> set fs),
      fs_mkdirSync = (\<lambda>fs p.
        if p \<in> set fs then Inl ''EEXIST''
        else if \<exists>c \<in> set (drop (length tmp) p). c \<in> set badChars then Inl ''ENOENT''
        else Inr (fs @ [p])),
      rimraf = (\<lambda>fs p. filter (\<lambda>q. \<not> (q = p \<or> take (Suc (length p)) q = p @ [sepc])) fs)\<rparr>"

text \<open>Two such hosts: a Linux one whose temporary directory is \<open>/tmp\<close>, and a Windows
  one, with the backslash as separator, that rejects the characters \<open><>:|?*\<close>.\<close>

definition linuxHost :: "string list host" where
  "linuxHost = treeHost ''linux'' CHR ''/'' ''/tmp'' []"



subsection \<open>The kit command\<close>

text \<open>
  \<open>cli/kit.ts\<close> and the kit registry are not among the sources: the test suite
  \<open>test/kit.ts\<close> is. The expected contents of \<open>taco.json\<close> below are the test suite's
  (\<open>IKeyValuePair<string>\<close>, a dictionary from keys to strings).
\<close>

type_synonym manifest = "string \<rightharpoonup> string"

definition expectedCliTacoJsonKeyValues :: manifest where
  "expectedCliTacoJsonKeyValues = [''cordova-cli'' \<mapsto> ''5.1.1'']"

definition expectedKitTacoJsonKeyValues :: manifest where
  "expectedKitTacoJsonKeyValues = [''kit'' \<mapsto> ''5.1.1-Kit'', ''cordova-cli'' \<mapsto> ''5.1.1'']"

record telemetryProperty =
  isPii :: bool
  propValue :: string

type_synonym telemetry = "string \<rightharpoonup> telemetryProperty"

text \<open>
  Modelled from the spec: the Kit of the data model (the registry package is not among
  the sources): an identifier, the Cordova CLI version it pins, the recommended plugin
  and platform version constraints, a deprecation flag. The registry maps identifiers
  to kits, in order.
\<close>

record Kit =
  kitId :: string
  cordovaCli :: string
  plugins :: "(string \<times> string) list"
  platforms :: "(string \<times> string) list"
  deprecated :: bool

type_synonym KitRegistry = "(string \<times> Kit) list"

text \<open>
  Modelled from the spec: \<open>KitRegistry.resolveKit\<close>, which is not among the sources. It
  fails with \<open>InvalidKit\<close> when the identifier is not in the registry.
\<close>

definition resolveKit :: "KitRegistry \<Rightarrow> string \<Rightarrow> TacoErrorCode + Kit" where
  "resolveKit registry kid =
     (case map_of registry kid of
        None \<Rightarrow> Inl TacoKitsExceptionInvalidKit
      | Some kit \<Rightarrow> Inr kit)"

text \<open>
  Modelled from the spec: \<open>KitRegistry.resolveCordovaVersion\<close>, which is not among the
  sources. It fails with \<open>InvalidVersion\<close> when the version does not match the
  recognised pattern; the pattern is a parameter.
\<close>

definition resolveCordovaVersion :: "(string \<Rightarrow> bool) \<Rightarrow> string \<Rightarrow> TacoErrorCode + string" where
  "resolveCordovaVersion wellFormed version =
     (if wellFormed version then Inr version else Inl ErrorInvalidVersion)"

text \<open>
  Modelled from the spec: \<open>ManifestWriter.write\<close>, which is not among the sources. It
  overwrites the manifest, never merges, and fails with \<open>FailedFileWrite\<close>, leaving the
  file as it was, when the file cannot be written. The specification gives the manifest
  of a kit selection both as \<open>{kit}\<close> and, for \<open>select --kit "5.1.1-Kit"\<close>, as
  \<open>{kit: "5.1.1-Kit", "cordova-cli": "5.1.1"}\<close> "per source expectations"; the test
  suite asserts the second (\<open>expectedKitTacoJsonKeyValues\<close>), and the model follows it:
  a kit selection records the kit and the kit's Cordova CLI version.
\<close>

datatype selection = KitSelection string string | CliSelection string

text \<open>
  Modelled from the spec: the manifest \<open>ManifestWriter.write\<close> writes for a selection,
  as described above.
\<close>

fun manifestOf :: "selection \<Rightarrow> manifest" where
  "manifestOf (KitSelection kid cli) = [''kit'' \<mapsto> kid, ''cordova-cli'' \<mapsto> cli]"
| "manifestOf (CliSelection version) = [''cordova-cli'' \<mapsto> version]"

text \<open>
  Modelled from the spec: \<open>ManifestWriter.write\<close>, all or nothing; \<open>writable\<close> says
  whether the underlying write succeeds.
\<close>

definition writeManifest :: "bool \<Rightarrow> selection \<Rightarrow> manifest \<Rightarrow> TacoErrorCode + manifest" where
  "writeManifest writable sel m = (if writable then Inr (manifestOf sel) else Inl FailedFileWrite)"

text \<open>
  Modelled from the spec: the telemetry of the kit command, which is not among the
  sources. It records the sub-command and each option used, under the keys the test
  suite expects (\<open>subCommand\<close>, \<open>options.<name>\<close>); the value of the \<open>json\<close> option,
  a path, is personally identifiable, the others are not.
\<close>

definition telemetryOf :: "string \<Rightarrow> (string \<times> string) list \<Rightarrow> telemetry" where
  "telemetryOf subCommand opts =
     (map_of (map (\<lambda>(name, v). (''options.'' @ name, \<lparr>isPii = (name = ''json''), propValue = v\<rparr>)) opts))
       (''subCommand'' \<mapsto> \<lparr>isPii = False, propValue = subCommand\<rparr>)"

text \<open>
  Modelled from the spec: the transition \<open>select\<close> of KitSelectionFlow, which is not
  among the sources (\<open>kit select --kit <id>\<close> and \<open>kit select --cordova <version>\<close>).
  The target is resolved, the manifest written, and the telemetry returned; on an error
  the manifest is left as it was.
\<close>

datatype target = TargetKit string | TargetCordova string

text \<open>
  Modelled from the spec: \<open>select\<close>, as described above; it returns the error or the
  telemetry, and the manifest afterwards.
\<close>

definition select ::
  "KitRegistry \<Rightarrow> (string \<Rightarrow> bool) \<Rightarrow> bool \<Rightarrow> target \<Rightarrow> manifest \<Rightarrow> (TacoErrorCode + telemetry) \<times> manifest" where
  "select registry wellFormed writable tgt m =
     (case tgt of
        TargetKit kid \<Rightarrow>
          (case resolveKit registry kid of
             Inl e \<Rightarrow> (Inl e, m)
           | Inr kit \<Rightarrow>
               (case writeManifest writable (KitSelection kid (cordovaCli kit)) m of
                  Inl e \<Rightarrow> (Inl e, m)
                | Inr m' \<Rightarrow> (Inr (telemetryOf ''select'' [(''kit'', kid)]), m')))
      | TargetCordova version \<Rightarrow>
          (case resolveCordovaVersion wellFormed version of
             Inl e \<Rightarrow> (Inl e, m)
           | Inr v \<Rightarrow>
               (case writeManifest writable (CliSelection v) m of
                  Inl e \<Rightarrow> (Inl e, m)
                | Inr m' \<Rightarrow> (Inr (telemetryOf ''select'' [(''cordova'', v)]), m'))))"

text \<open>
  Modelled from the spec: \<open>kit list [--kit <id>] [--json <path>]\<close>, for its telemetry
  only (the listing and the JSON file it writes are left out).
\<close>

definition kitList ::
  "string option \<Rightarrow> string option \<Rightarrow> manifest \<Rightarrow> (TacoErrorCode + telemetry) \<times> manifest" where
  "kitList kitFilter jsonPath m =
     (Inr (telemetryOf ''list''
        ((case kitFilter of None \<Rightarrow> [] | Some kid \<Rightarrow> [(''kit'', kid)]) @
         (case jsonPath of None \<Rightarrow> [] | Some p \<Rightarrow> [(''json'', p)]))), m)"

text \<open>
  Modelled from the spec: the kit catalogue (taco-kits is not among the sources), as far
  as the test suite relies on it: the kit \<open>5.1.1-Kit\<close> pins the Cordova CLI
  \<open>5.1.1\<close>, and there is no kit \<open>InvalidKit\<close>.
\<close>

definition testKits :: KitRegistry where
  "testKits =
     [(''5.1.1-Kit'',
       \<lparr>kitId = ''5.1.1-Kit'', cordovaCli = ''5.1.1'', plugins = [], platforms = [],
        deprecated = False\<rparr>)]"

section \<open>Theorems\<close>

subsection \<open>quotesAroundIfNecessary\<close>

lemma indexOf_neg_iff: "indexOf xs c < 0 \<longleftrightarrow> c \<notin> set xs"
  by (induction xs) (auto simp: Let_def)

lemma indexOf_ge: "- 1 \<le> indexOf xs c"
  by (induction xs) (auto simp: Let_def)

lemma indexOf_found_iff: "indexOf xs c > - 1 \<longleftrightarrow> c \<in> set xs"
  using indexOf_neg_iff [of xs c] indexOf_ge [of xs c] by linarith

lemma replaceQuotes_concat:
  "replaceQuotes xs = concat (map (\<lambda>c. if c = CHR 0x22 then [CHR 0x5C, CHR 0x22] else [c]) xs)"
  by (induction xs) auto

text \<open>
  Claim C10. An input without a space is returned unchanged, whatever else it contains
  (double quotes too); an input with a space is returned between two double quotes, with
  every double quote of the input replaced by a backslash followed by a double quote.
\<close>

theorem quotesAroundIfNecessary_spec:
  "quotesAroundIfNecessary input =
     (if CHR '' '' \<in> set input
      then CHR 0x22 #
        concat (map (\<lambda>c. if c = CHR 0x22 then [CHR 0x5C, CHR 0x22] else [c]) input) @ [CHR 0x22]
      else input)"
  by (simp add: quotesAroundIfNecessary_def indexOf_found_iff replaceQuotes_concat)

theorem quotesAroundIfNecessary_spec_witness:
  "quotesAroundIfNecessary [CHR ''a'', CHR 0x22, CHR ''b''] = [CHR ''a'', CHR 0x22, CHR ''b''] \<and>
   quotesAroundIfNecessary ''My App'' = [CHR 0x22] @ ''My App'' @ [CHR 0x22] \<and>
   quotesAroundIfNecessary [CHR ''a'', CHR '' '', CHR 0x22, CHR ''b''] =
     [CHR 0x22, CHR ''a'', CHR '' '', CHR 0x5C, CHR 0x22, CHR ''b'', CHR 0x22]"
  using quotesAroundIfNecessary_spec [of "[CHR ''a'', CHR 0x22, CHR ''b'']"]
    quotesAroundIfNecessary_spec [of "''My App''"]
    quotesAroundIfNecessary_spec [of "[CHR ''a'', CHR '' '', CHR 0x22, CHR ''b'']"]
  by simp

subsection \<open>isValidCordovaAppName\<close>

text \<open>What the loop decides: a name is accepted when every character code is at least 32
  and is not a key of the table.\<close>

lemma truthy_table:
  "truthy (map_of InvalidAppNameChars code) \<longleftrightarrow> code \<in> {34, 36, 38, 39, 60, 92}"
  by (auto simp: InvalidAppNameChars_def)

lemma isValidCordovaAppName_codes:
  "isValidCordovaAppName s \<longleftrightarrow>
     list_all (\<lambda>c. 32 \<le> (of_char c :: nat) \<and> (of_char c :: nat) \<notin> {34, 36, 38, 39, 60, 92}) s"
  by (induction s) (auto simp: Let_def truthy_table)

lemma isValidCordovaAppName_empty: "isValidCordovaAppName []"
  by simp

lemma invalidAppNameCharacters_value:
  "invalidAppNameCharacters = [[CHR 0x22], ''$'', ''&'', ''/'', ''<'', [CHR 0x5C]]"
  by (simp add: invalidAppNameCharacters_def InvalidAppNameChars_def)

text \<open>
  Claim C8 says that a name is valid exactly when every character has a code of at least
  32 and is none of the six characters the table lists, the slash among them. The table
  files the slash under the key 39, which is the code of the apostrophe (the slash is
  47): the name \<open>/\<close> is accepted and the name \<open>'\<close> is rejected, while
  \<open>invalidAppNameCharacters\<close> does report the slash as forbidden.
\<close>

theorem isValidCordovaAppName_slash_accepted:
  "isValidCordovaAppName ''/'' \<and> \<not> isValidCordovaAppName [CHR 0x27] \<and>
   ''/'' \<in> set invalidAppNameCharacters \<and> [CHR 0x27] \<notin> set invalidAppNameCharacters"
  by (simp add: InvalidAppNameChars_def invalidAppNameCharacters_def)

subsection \<open>copyFile\<close>

lemma copyFileListener_settled: "p \<noteq> Pending \<Longrightarrow> copyFileListener from to p ev = p"
  by (cases p; cases ev) auto

lemma foldl_copyFileListener_settled:
  "p \<noteq> Pending \<Longrightarrow> foldl (copyFileListener from to) p evs = p"
  by (induction evs arbitrary: p) (auto simp: copyFileListener_settled)

text \<open>The first event settles the promise; before any event it is pending.\<close>

lemma copyFile_first_event:
  "copyFile from to (ev # evs) = copyFileListener from to Pending ev"
  by (cases ev) (simp_all add: copyFile_def foldl_copyFileListener_settled)

lemma copyFile_no_event: "copyFile from to [] = Pending"
  by (simp add: copyFile_def)

text \<open>The promise is fulfilled only by the \<open>finish\<close> of the write stream.\<close>

lemma copyFile_fulfilled_iff:
  "copyFile from to events = Fulfilled () \<longleftrightarrow> (\<exists>evs. events = NewFileFinish # evs)"
proof (cases events)
  case Nil
  then show ?thesis by (simp add: copyFile_def)
next
  case (Cons ev evs)
  then show ?thesis by (cases ev) (simp_all add: copyFile_first_event)
qed

text \<open>
  Claim C3 says that a failure on the read side of the copy is surfaced as
  \<open>FailedFileRead\<close> and one on the write side as \<open>FailedFileWrite\<close>, each with the
  offending path. The listeners carry the right paths and the two codes exchanged: an
  error of the read stream on \<open>a.txt\<close> rejects with \<open>FailedFileWrite\<close>, an error of
  the write stream on \<open>b.txt\<close> with \<open>FailedFileRead\<close>.
\<close>

theorem copyFile_error_codes_exchanged:
  "copyFile ''a.txt'' ''b.txt'' [OldFileError ''ENOENT''] =
     Rejected \<lparr>errorCode = FailedFileWrite, innerError = ''ENOENT'', errorArgs = [''a.txt'']\<rparr> \<and>
   copyFile ''a.txt'' ''b.txt'' [NewFileError ''EACCES''] =
     Rejected \<lparr>errorCode = FailedFileRead, innerError = ''EACCES'', errorArgs = [''b.txt'']\<rparr>"
  by (simp add: copyFile_def wrap_def)

subsection \<open>tacoHome\<close>

text \<open>
  Claim C4, as amended. \<open>TACO_HOME\<close>, when set to a non-empty value, is the result.
  Otherwise the result is \<open>path.join(APPDATA, "taco_home")\<close> on win32 and
  \<open>path.join(HOME, ".taco_home")\<close> on darwin and linux (the variable being set), and
  on every other platform the accessor throws \<open>Error("UnexpectedPlatform")\<close>.
\<close>

theorem tacoHome_spec:
  "(env ''TACO_HOME'' = Some v \<and> v \<noteq> [] \<longrightarrow> tacoHome pjoin env plat = Inr v) \<and>
   (\<not> truthy (env ''TACO_HOME'') \<and> plat = ''win32'' \<and> env ''APPDATA'' = Some a \<longrightarrow>
      tacoHome pjoin env plat = Inr (pjoin a ''taco_home'')) \<and>
   (\<not> truthy (env ''TACO_HOME'') \<and> (plat = ''darwin'' \<or> plat = ''linux'') \<and>
      env ''HOME'' = Some d \<longrightarrow>
      tacoHome pjoin env plat = Inr (pjoin d ''.taco_home'')) \<and>
   (\<not> truthy (env ''TACO_HOME'') \<and> plat \<noteq> ''win32'' \<and> plat \<noteq> ''darwin'' \<and> plat \<noteq> ''linux'' \<longrightarrow>
      tacoHome pjoin env plat = Inl (Error ''UnexpectedPlatform''))"
  by (cases "env ''TACO_HOME''") (auto simp: tacoHome_def platformTacoHome_def joinEnv_def)

theorem tacoHome_spec_witness:
  "tacoHome (\<lambda>a b. a @ ''/'' @ b) [''TACO_HOME'' \<mapsto> ''/opt/taco''] ''linux'' = Inr ''/opt/taco'' \<and>
   tacoHome (\<lambda>a b. a @ [CHR 0x5C] @ b) [''APPDATA'' \<mapsto> ''C:/Users/u/AppData''] ''win32''
     = Inr (''C:/Users/u/AppData'' @ [CHR 0x5C] @ ''taco_home'') \<and>
   tacoHome (\<lambda>a b. a @ ''/'' @ b) [''HOME'' \<mapsto> ''/home/u''] ''linux'' = Inr ''/home/u/.taco_home'' \<and>
   tacoHome (\<lambda>a b. a @ ''/'' @ b) [''HOME'' \<mapsto> ''/home/u''] ''sunos'' = Inl (Error ''UnexpectedPlatform'')"
  using tacoHome_spec [where env = "[''TACO_HOME'' \<mapsto> ''/opt/taco'']" and v = "''/opt/taco''"
        and pjoin = "\<lambda>a b. a @ ''/'' @ b" and plat = "''linux''"]
    tacoHome_spec [where env = "[''APPDATA'' \<mapsto> ''C:/Users/u/AppData'']" and plat = "''win32''"
        and a = "''C:/Users/u/AppData''" and pjoin = "\<lambda>a b. a @ [CHR 0x5C] @ b"]
    tacoHome_spec [where env = "[''HOME'' \<mapsto> ''/home/u'']" and plat = "''linux''"
        and pjoin = "\<lambda>a b. a @ ''/'' @ b" and d = "''/home/u''"]
    tacoHome_spec [where env = "[''HOME'' \<mapsto> ''/home/u'']" and plat = "''sunos''"
        and pjoin = "\<lambda>a b. a @ ''/'' @ b"]
  by simp

text \<open>
  The claim as first stated, "\<open>~/.taco_home\<close> elsewhere", fails on a platform that is
  neither win32, darwin nor linux: on freebsd, with \<open>HOME\<close> set and \<open>TACO_HOME\<close> not,
  the accessor throws.
\<close>

theorem tacoHome_freebsd_counterexample:
  "tacoHome (\<lambda>a b. a @ ''/'' @ b) [''HOME'' \<mapsto> ''/home/u''] ''freebsd''
     = Inl (Error ''UnexpectedPlatform'')"
  by (simp add: tacoHome_def platformTacoHome_def)

subsection \<open>cleanseOptions\<close>

lemma set_firstOccurrences: "set (firstOccurrences xs) = set xs"
  by (induction xs) auto

lemma notExcluded_iff:
  "notExcluded exclude opt \<longleftrightarrow> (case exclude of None \<Rightarrow> True | Some ex \<Rightarrow> opt \<notin> set ex)"
  by (simp add: notExcluded_def indexOf_neg_iff split: option.splits)

lemma length_setProp: "length (setProp h a k v) = length h"
  by (simp add: setProp_def setPrototype_def split: jsval.splits)

lemma nth_setProp_other: "b \<noteq> a \<Longrightarrow> setProp h a k v ! b = h ! b"
  by (simp add: setProp_def setPrototype_def split: jsval.splits)

lemma own_setProp_same:
  "a < length h \<Longrightarrow> k \<noteq> ''__proto__'' \<Longrightarrow> own (setProp h a k v ! a) = AList.update k v (own (h ! a))"
  by (simp add: setProp_def)

lemma own_setProp_proto:
  "own (setProp h a ''__proto__'' v ! a) = own (h ! a)"
  by (cases "a < length h") (auto simp: setProp_def setPrototype_def split: jsval.splits)

lemma getProp_setProp_other: "b \<noteq> a \<Longrightarrow> getProp (setProp h a k v) b k' = getProp h b k'"
  unfolding getProp_def by (simp add: length_setProp nth_setProp_other)

lemma length_cleanseLoop: "length (cleanseLoop h options exclude cleansed ks) = length h"
  by (induction ks arbitrary: h) (simp_all add: length_setProp)

lemma nth_cleanseLoop_other:
  "b \<noteq> cleansed \<Longrightarrow> cleanseLoop h options exclude cleansed ks ! b = h ! b"
  by (induction ks arbitrary: h) (simp_all add: nth_setProp_other)

lemma map_of_cleanseLoop:
  assumes "cleansed < length h" "options \<noteq> cleansed"
    and "\<And>k. k \<in> set ks \<Longrightarrow> notExcluded exclude k \<Longrightarrow> k \<noteq> ''__proto__''"
  shows "map_of (own (cleanseLoop h options exclude cleansed ks ! cleansed)) k =
     (if k \<in> set ks \<and> notExcluded exclude k
      then Some (getProp h options k)
      else map_of (own (h ! cleansed)) k)"
  using assms
proof (induction ks arbitrary: h)
  case Nil
  then show ?case by simp
next
  case (Cons opt opts)
  have rest: "\<And>k. k \<in> set opts \<Longrightarrow> notExcluded exclude k \<Longrightarrow> k \<noteq> ''__proto__''"
    using Cons.prems(3) by simp
  show ?case
  proof (cases "notExcluded exclude opt")
    case False
    then show ?thesis using Cons.IH [OF Cons.prems(1,2) rest] by auto
  next
    case True
    then have np: "opt \<noteq> ''__proto__''" using Cons.prems(3) by simp
    let ?h = "setProp h cleansed opt (getProp h options opt)"
    have len: "cleansed < length ?h" using Cons.prems by (simp add: length_setProp)
    have get: "getProp ?h options k = getProp h options k" for k
      using Cons.prems by (simp add: getProp_setProp_other)
    have "map_of (own (cleanseLoop ?h options exclude cleansed opts ! cleansed)) k =
      (if k \<in> set opts \<and> notExcluded exclude k
       then Some (getProp ?h options k)
       else map_of (own (?h ! cleansed)) k)"
      using Cons.IH [OF len Cons.prems(2) rest] .
    then show ?thesis
      using True np Cons.prems(1) by (simp add: get own_setProp_same update_conv')
  qed
qed

lemma distinct_cleanseLoop:
  "distinct (map fst (own (h ! cleansed))) \<Longrightarrow>
   distinct (map fst (own (cleanseLoop h options exclude cleansed ks ! cleansed)))"
proof (induction ks arbitrary: h)
  case Nil
  then show ?case by simp
next
  case (Cons opt opts)
  have "distinct (map fst (own (setProp h cleansed opt v ! cleansed)))" for v
  proof (cases "opt = ''__proto__''")
    case True
    then show ?thesis using Cons.prems by (simp add: own_setProp_proto)
  next
    case False
    then show ?thesis using Cons.prems
      by (cases "cleansed < length h") (simp_all add: setProp_def distinct_update)
  qed
  then show ?case using Cons by simp
qed

text \<open>
  Claim C9, as amended. For an options dictionary that inherits no enumerable property
  and has no own key \<open>__proto__\<close>, \<open>cleanseOptions\<close> returns a new dictionary (an
  address the heap did not have) whose keys are exactly the keys of the input that do
  not occur in the exclusion list, each bound to the value it has in the input; with a
  null or undefined list every key is kept; and every object of the heap, the input
  among them, is left as it was.
\<close>

theorem cleanseOptions_spec:
  assumes "options < length h"
    and "inherited (h ! options) = []"
    and "''__proto__'' \<notin> fst ` set (own (h ! options))"
    and "cleanseOptions h objectPrototype options exclude = (cleansed, h')"
  shows "cleansed = length h \<and> length h' = Suc (length h) \<and> take (length h) h' = h \<and>
     h' ! options = h ! options \<and>
     (\<forall>k. map_of (own (h' ! cleansed)) k =
        (if (case exclude of None \<Rightarrow> False | Some ex \<Rightarrow> k \<in> set ex) then None
         else map_of (own (h ! options)) k)) \<and>
     fst ` set (own (h' ! cleansed)) =
       {k \<in> fst ` set (own (h ! options)). case exclude of None \<Rightarrow> True | Some ex \<Rightarrow> k \<notin> set ex} \<and>
     distinct (map fst (own (h' ! cleansed)))"
proof -
  let ?h1 = "h @ [\<lparr>own = [], inherited = objectPrototype\<rparr>]"
  have c: "cleansed = length h"
    and h': "h' = cleanseLoop ?h1 options exclude (length h) (forInKeys ?h1 options)"
    using assms(4) by (auto simp: cleanseOptions_def newObject_def)
  have keys: "set (forInKeys ?h1 options) = fst ` set (own (h ! options))"
    using assms(1,2) by (simp add: forInKeys_def nth_append set_firstOccurrences)
  have len: "length h' = Suc (length h)"
    by (simp add: h' length_cleanseLoop)
  have other: "h' ! b = h ! b" if "b < length h" for b
    using that by (simp add: h' nth_cleanseLoop_other nth_append)
  have frame: "take (length h) h' = h"
    by (rule nth_equalityI) (simp_all add: len other)
  have get: "getProp ?h1 options k = (case map_of (own (h ! options)) k of None \<Rightarrow> Undefined | Some v \<Rightarrow> v)" for k
    using assms(1,2) by (simp add: getProp_def nth_append)
  have m: "map_of (own (h' ! cleansed)) k =
        (if (case exclude of None \<Rightarrow> False | Some ex \<Rightarrow> k \<in> set ex) then None
         else map_of (own (h ! options)) k)" for k
  proof -
    have "map_of (own (h' ! cleansed)) k =
       (if k \<in> set (forInKeys ?h1 options) \<and> notExcluded exclude k
        then Some (getProp ?h1 options k)
        else map_of (own (?h1 ! length h)) k)"
    proof -
      have lt: "length h < length ?h1" by simp
      have ne: "options \<noteq> length h" using assms(1) by simp
      have np: "\<And>k. k \<in> set (forInKeys ?h1 options) \<Longrightarrow> notExcluded exclude k \<Longrightarrow> k \<noteq> ''__proto__''"
        using assms(3) unfolding keys by blast
      show ?thesis unfolding c h' by (rule map_of_cleanseLoop [OF lt ne np])
    qed
    moreover have "map_of (own (?h1 ! length h)) k = None" by simp
    moreover have "k \<in> fst ` set (own (h ! options)) \<longleftrightarrow> map_of (own (h ! options)) k \<noteq> None"
      by (simp add: map_of_eq_None_iff)
    ultimately show ?thesis
      by (cases "map_of (own (h ! options)) k"; cases exclude)
        (simp_all add: notExcluded_iff keys get)
  qed
  have d: "distinct (map fst (own (h' ! cleansed)))"
    unfolding c h' by (rule distinct_cleanseLoop) simp
  have "fst ` set (own (h' ! cleansed)) = dom (map_of (own (h' ! cleansed)))"
    by (simp add: dom_map_of_conv_image_fst)
  also have "\<dots> = {k \<in> dom (map_of (own (h ! options))). case exclude of None \<Rightarrow> True | Some ex \<Rightarrow> k \<notin> set ex}"
    by (auto simp: m dom_def split: option.splits if_splits)
  also have "\<dots> = {k \<in> fst ` set (own (h ! options)). case exclude of None \<Rightarrow> True | Some ex \<Rightarrow> k \<notin> set ex}"
    by (simp only: dom_map_of_conv_image_fst)
  finally show ?thesis using c len frame other [OF assms(1)] m d by blast
qed

theorem cleanseOptions_spec_witness:
  "cleanseOptions
     [\<lparr>own = [(''kit'', Prim ''5.1.1-Kit''), (''json'', Prim ''out.json''), (''verbose'', Undefined)],
       inherited = []\<rparr>] [] 0 (Some [''json'', ''cordova'']) =
     (1, [\<lparr>own = [(''kit'', Prim ''5.1.1-Kit''), (''json'', Prim ''out.json''), (''verbose'', Undefined)],
            inherited = []\<rparr>,
          \<lparr>own = [(''kit'', Prim ''5.1.1-Kit''), (''verbose'', Undefined)], inherited = []\<rparr>]) \<and>
   fst ` set [(''kit'', Prim ''5.1.1-Kit''), (''verbose'', Undefined :: string jsval)] =
     {k \<in> fst ` set [(''kit'', Prim ''5.1.1-Kit''), (''json'', Prim ''out.json''),
                     (''verbose'', Undefined :: string jsval)].
        k \<notin> set [''json'', ''cordova'']}"
proof -
  let ?d = "\<lparr>own = [(''kit'', Prim ''5.1.1-Kit''), (''json'', Prim ''out.json''),
      (''verbose'', Undefined :: string jsval)], inherited = []\<rparr>"
  let ?c = "\<lparr>own = [(''kit'', Prim ''5.1.1-Kit''), (''verbose'', Undefined :: string jsval)],
      inherited = []\<rparr>"
  have lt: "(0::nat) < length [?d]" by simp
  have ni: "inherited ([?d] ! 0) = []" by simp
  have np: "''__proto__'' \<notin> fst ` set (own ([?d] ! 0))" by simp
  have run: "cleanseOptions [?d] [] 0 (Some [''json'', ''cordova'']) = (1, [?d, ?c])"
    by (simp add: cleanseOptions_def newObject_def forInKeys_def notExcluded_def getProp_def
        setProp_def)
  from cleanseOptions_spec [OF lt ni np run] run show ?thesis by simp
qed

text \<open>
  The claim as first stated, for every options dictionary, fails on two kinds of input.
  An own key \<open>__proto__\<close> that is not excluded is not a key of the result: the
  assignment runs the prototype setter. And a property the input inherits, which is not
  one of its keys, is a key of the result.
\<close>

theorem cleanseOptions_proto_counterexample:
  "cleanseOptions
     [\<lparr>own = [(''__proto__'', Prim ''x''), (''kit'', Prim ''5.1.1-Kit'')], inherited = []\<rparr>]
     [] 0 None =
     (1, [\<lparr>own = [(''__proto__'', Prim ''x''), (''kit'', Prim ''5.1.1-Kit'')], inherited = []\<rparr>,
          \<lparr>own = [(''kit'', Prim ''5.1.1-Kit'')], inherited = []\<rparr>]) \<and>
   cleanseOptions
     [\<lparr>own = [(''kit'', Prim ''5.1.1-Kit'')], inherited = [(''extra'', Prim ''1'')]\<rparr>]
     [(''extra'', Prim ''1'')] 0 None =
     (1, [\<lparr>own = [(''kit'', Prim ''5.1.1-Kit'')], inherited = [(''extra'', Prim ''1'')]\<rparr>,
          \<lparr>own = [(''kit'', Prim ''5.1.1-Kit''), (''extra'', Prim ''1'')],
            inherited = [(''extra'', Prim ''1'')]\<rparr>])"
  by (simp add: cleanseOptions_def newObject_def forInKeys_def notExcluded_def getProp_def
      setProp_def setPrototype_def)

subsection \<open>isPathValid\<close>









lemma freshTestDir_terminates:
  "\<not> fs_existsSync H fs (path_join H (os_tmpdir H) (rnd k)) \<Longrightarrow> n \<le> k \<Longrightarrow>
   \<exists>j. n \<le> j \<and> j \<le> k \<and> freshTestDir H rnd fs n = Some (rnd j) \<and>
       \<not> fs_existsSync H fs (path_join H (os_tmpdir H) (rnd j))"
proof (induction "k - n" arbitrary: n)
  case 0
  then have "n = k" by simp
  then show ?case using "0.prems"(1) by (subst freshTestDir.simps) auto
next
  case (Suc d)
  show ?case
  proof (cases "fs_existsSync H fs (path_join H (os_tmpdir H) (rnd n))")
    case False
    then show ?thesis using Suc.prems by (subst freshTestDir.simps) auto
  next
    case True
    have "d = k - Suc n" "Suc n \<le> k" using Suc.hyps(2) by auto
    from Suc.hyps(1) [OF this(1) Suc.prems(1) this(2)]
    obtain j where "Suc n \<le> j" "j \<le> k" "freshTestDir H rnd fs (Suc n) = Some (rnd j)"
      "\<not> fs_existsSync H fs (path_join H (os_tmpdir H) (rnd j))" by blast
    moreover have "freshTestDir H rnd fs n = freshTestDir H rnd fs (Suc n)"
      using True by (subst freshTestDir.simps) simp
    ultimately show ?thesis by (intro exI [of _ j]) simp
  qed
qed




lemma linux_fresh:
  "freshTestDir linuxHost (\<lambda>n. ''3f9a'') [''/tmp''] 0 = Some ''3f9a''"
  by (subst freshTestDir.simps) (simp add: linuxHost_def treeHost_def)

text \<open>
  Claim C6 says that the scratch directory, with every segment directory made inside
  it, is removed afterwards. \<open>rimraf\<close> is given \<open>currentPath\<close>, which the loop has moved
  to the last directory it made: on a Linux host, after \<open>isPathValid("www/js")\<close> with
  the scratch directory \<open>/tmp/3f9a\<close>, only \<open>/tmp/3f9a/www/js\<close> is removed, and
  \<open>/tmp/3f9a\<close> and \<open>/tmp/3f9a/www\<close> stay.
\<close>

theorem isPathValid_leaves_scratch:
  "isPathValid linuxHost (\<lambda>n. ''3f9a'') [''/tmp''] ''www/js''
     = Some (Inr True, [''/tmp'', ''/tmp/3f9a'', ''/tmp/3f9a/www''])"
  unfolding isPathValid_def linux_fresh
  by (simp add: linuxHost_def treeHost_def testSegment_def Let_def)

subsection \<open>The kit command\<close>

lemma telemetryOf_select_kit:
  "telemetryOf ''select'' [(''kit'', kid)] =
     [''options.kit'' \<mapsto> \<lparr>isPii = False, propValue = kid\<rparr>,
      ''subCommand'' \<mapsto> \<lparr>isPii = False, propValue = ''select''\<rparr>]"
  by (simp add: telemetryOf_def)

lemma telemetryOf_select_cordova:
  "telemetryOf ''select'' [(''cordova'', v)] =
     [''options.cordova'' \<mapsto> \<lparr>isPii = False, propValue = v\<rparr>,
      ''subCommand'' \<mapsto> \<lparr>isPii = False, propValue = ''select''\<rparr>]"
  by (simp add: telemetryOf_def)

lemma select_kit_ok:
  "map_of registry kid = Some kit \<Longrightarrow>
   select registry wellFormed True (TargetKit kid) m =
     (Inr (telemetryOf ''select'' [(''kit'', kid)]),
      [''kit'' \<mapsto> kid, ''cordova-cli'' \<mapsto> cordovaCli kit])"
  by (simp add: select_def resolveKit_def writeManifest_def)

lemma select_cordova_ok:
  "wellFormed v \<Longrightarrow>
   select registry wellFormed True (TargetCordova v) m =
     (Inr (telemetryOf ''select'' [(''cordova'', v)]), [''cordova-cli'' \<mapsto> v])"
  by (simp add: select_def resolveCordovaVersion_def writeManifest_def)

lemma select_kit_invalid:
  "map_of registry kid = None \<Longrightarrow>
   select registry wellFormed writable (TargetKit kid) m = (Inl TacoKitsExceptionInvalidKit, m)"
  by (simp add: select_def resolveKit_def)

lemma select_cordova_invalid:
  "\<not> wellFormed v \<Longrightarrow>
   select registry wellFormed writable (TargetCordova v) m = (Inl ErrorInvalidVersion, m)"
  by (simp add: select_def resolveCordovaVersion_def)

lemma testKits_lookup:
  "map_of testKits ''5.1.1-Kit'' =
     Some \<lparr>kitId = ''5.1.1-Kit'', cordovaCli = ''5.1.1'', plugins = [], platforms = [],
        deprecated = False\<rparr>"
  "map_of testKits ''InvalidKit'' = None"
  by (simp_all add: testKits_def)

text \<open>The four select cases of the test suite, on the model.\<close>

lemma kit_ts_select_invalid_cordova:
  "select testKits (\<lambda>v. v = ''5.1.1'') True (TargetCordova ''InvalidCordovaCliVersion'')
     expectedKitTacoJsonKeyValues = (Inl ErrorInvalidVersion, expectedKitTacoJsonKeyValues)"
  by (simp add: select_cordova_invalid)

lemma kit_ts_select_cordova:
  "select testKits (\<lambda>v. v = ''5.1.1'') True (TargetCordova ''5.1.1'')
     expectedKitTacoJsonKeyValues =
     (Inr [''options.cordova'' \<mapsto> \<lparr>isPii = False, propValue = ''5.1.1''\<rparr>,
           ''subCommand'' \<mapsto> \<lparr>isPii = False, propValue = ''select''\<rparr>],
      expectedCliTacoJsonKeyValues)"
  by (simp add: select_cordova_ok telemetryOf_select_cordova expectedCliTacoJsonKeyValues_def)

lemma kit_ts_select_invalid_kit:
  "select testKits (\<lambda>v. v = ''5.1.1'') True (TargetKit ''InvalidKit'')
     expectedCliTacoJsonKeyValues = (Inl TacoKitsExceptionInvalidKit, expectedCliTacoJsonKeyValues)"
  by (simp add: select_kit_invalid testKits_lookup)

lemma kit_ts_select_kit:
  "select testKits (\<lambda>v. v = ''5.1.1'') True (TargetKit ''5.1.1-Kit'')
     expectedCliTacoJsonKeyValues =
     (Inr [''options.kit'' \<mapsto> \<lparr>isPii = False, propValue = ''5.1.1-Kit''\<rparr>,
           ''subCommand'' \<mapsto> \<lparr>isPii = False, propValue = ''select''\<rparr>],
      expectedKitTacoJsonKeyValues)"
  by (simp add: select_kit_ok [OF testKits_lookup(1)] telemetryOf_select_kit
      expectedKitTacoJsonKeyValues_def)

lemma kit_ts_list_json:
  "kitList None (Some tempJson) m =
     (Inr [''options.json'' \<mapsto> \<lparr>isPii = True, propValue = tempJson\<rparr>,
           ''subCommand'' \<mapsto> \<lparr>isPii = False, propValue = ''list''\<rparr>], m)"
  by (simp add: kitList_def telemetryOf_def)

lemma kit_ts_list_kit:
  "kitList (Some ''5.1.1-Kit'') None m =
     (Inr [''options.kit'' \<mapsto> \<lparr>isPii = False, propValue = ''5.1.1-Kit''\<rparr>,
           ''subCommand'' \<mapsto> \<lparr>isPii = False, propValue = ''list''\<rparr>], m)"
  by (simp add: kitList_def telemetryOf_def)

lemma kit_ts_list:
  "kitList None None m = (Inr [''subCommand'' \<mapsto> \<lparr>isPii = False, propValue = ''list''\<rparr>], m)"
  by (simp add: kitList_def telemetryOf_def)

text \<open>
  Claim C1, as amended. After a successful selection of a Cordova CLI version the
  manifest is exactly \<open>{"cordova-cli": <version>}\<close>; after a successful selection of a
  kit it is exactly \<open>{kit: <id>, "cordova-cli": <the kit's CLI version>}\<close>. So the key
  \<open>cordova-cli\<close> is always present, and the key \<open>kit\<close> exactly after a kit
  selection.
\<close>

theorem select_success_manifest:
  assumes "select registry wellFormed writable tgt m = (Inr t, m')"
  shows "(case tgt of
            TargetKit kid \<Rightarrow>
              (\<exists>kit. map_of registry kid = Some kit \<and>
                 m' = [''kit'' \<mapsto> kid, ''cordova-cli'' \<mapsto> cordovaCli kit])
          | TargetCordova version \<Rightarrow> m' = [''cordova-cli'' \<mapsto> version]) \<and>
         m' ''cordova-cli'' \<noteq> None \<and>
         (m' ''kit'' \<noteq> None \<longleftrightarrow> (\<exists>kid. tgt = TargetKit kid))"
  using assms
  by (cases tgt)
    (auto simp: select_def resolveKit_def resolveCordovaVersion_def writeManifest_def
      split: option.splits if_splits)

theorem select_success_manifest_witness:
  "select testKits (\<lambda>v. v = ''5.1.1'') True (TargetCordova ''5.1.1'') expectedKitTacoJsonKeyValues
     = (Inr (telemetryOf ''select'' [(''cordova'', ''5.1.1'')]), [''cordova-cli'' \<mapsto> ''5.1.1'']) \<and>
   [''cordova-cli'' \<mapsto> ''5.1.1''] ''kit'' = None \<and>
   select testKits (\<lambda>v. v = ''5.1.1'') True (TargetKit ''5.1.1-Kit'') expectedCliTacoJsonKeyValues
     = (Inr (telemetryOf ''select'' [(''kit'', ''5.1.1-Kit'')]),
        [''kit'' \<mapsto> ''5.1.1-Kit'', ''cordova-cli'' \<mapsto> ''5.1.1'']) \<and>
   [''kit'' \<mapsto> ''5.1.1-Kit'', ''cordova-cli'' \<mapsto> ''5.1.1''] ''kit'' \<noteq> None"
proof -
  have c: "select testKits (\<lambda>v. v = ''5.1.1'') True (TargetCordova ''5.1.1'')
      expectedKitTacoJsonKeyValues
      = (Inr (telemetryOf ''select'' [(''cordova'', ''5.1.1'')]), [''cordova-cli'' \<mapsto> ''5.1.1''])"
    by (simp add: select_cordova_ok)
  have k: "select testKits (\<lambda>v. v = ''5.1.1'') True (TargetKit ''5.1.1-Kit'')
      expectedCliTacoJsonKeyValues
      = (Inr (telemetryOf ''select'' [(''kit'', ''5.1.1-Kit'')]),
         [''kit'' \<mapsto> ''5.1.1-Kit'', ''cordova-cli'' \<mapsto> ''5.1.1''])"
    by (simp add: select_kit_ok [OF testKits_lookup(1)])
  from select_success_manifest [OF c] select_success_manifest [OF k] c k
  show ?thesis by simp
qed

text \<open>
  The claim as first stated, "never both keys", fails on the test suite's own case
  \<open>select --kit 5.1.1-Kit\<close> on the CLI project: the selection succeeds and the manifest
  is \<open>expectedKitTacoJsonKeyValues\<close>, which has both keys.
\<close>

theorem select_kit_both_keys_counterexample:
  "fst (select testKits (\<lambda>v. v = ''5.1.1'') True (TargetKit ''5.1.1-Kit'')
          expectedCliTacoJsonKeyValues)
     = Inr (telemetryOf ''select'' [(''kit'', ''5.1.1-Kit'')]) \<and>
   snd (select testKits (\<lambda>v. v = ''5.1.1'') True (TargetKit ''5.1.1-Kit'')
          expectedCliTacoJsonKeyValues) = expectedKitTacoJsonKeyValues \<and>
   expectedKitTacoJsonKeyValues ''kit'' = Some ''5.1.1-Kit'' \<and>
   expectedKitTacoJsonKeyValues ''cordova-cli'' = Some ''5.1.1''"
  by (simp add: select_kit_ok [OF testKits_lookup(1)] expectedKitTacoJsonKeyValues_def)

text \<open>
  Claim C2. A failed selection leaves the manifest as it was, whatever it was: a kit
  that is not in the registry fails with \<open>InvalidKit\<close>, a version that is not well
  formed with \<open>InvalidVersion\<close>, and the manifest read afterwards is the one before.
\<close>

theorem select_failure_preserves:
  "(select registry wellFormed writable tgt m = (Inl e, m') \<longrightarrow> m' = m) \<and>
   (map_of registry kid = None \<longrightarrow>
      select registry wellFormed writable (TargetKit kid) m = (Inl TacoKitsExceptionInvalidKit, m)) \<and>
   (\<not> wellFormed version \<longrightarrow>
      select registry wellFormed writable (TargetCordova version) m = (Inl ErrorInvalidVersion, m))"
  by (cases tgt)
    (auto simp: select_def resolveKit_def resolveCordovaVersion_def writeManifest_def
      split: option.splits if_splits)

theorem select_failure_preserves_witness:
  "select testKits (\<lambda>v. v = ''5.1.1'') True (TargetKit ''InvalidKit'') [''cordova-cli'' \<mapsto> ''5.1.1'']
     = (Inl TacoKitsExceptionInvalidKit, [''cordova-cli'' \<mapsto> ''5.1.1'']) \<and>
   select testKits (\<lambda>v. v = ''5.1.1'') True (TargetCordova ''InvalidCordovaCliVersion'')
       [''kit'' \<mapsto> ''5.1.1-Kit'']
     = (Inl ErrorInvalidVersion, [''kit'' \<mapsto> ''5.1.1-Kit'']) \<and>
   select testKits (\<lambda>v. v = ''5.1.1'') True (TargetCordova ''InvalidCordovaCliVersion'')
       expectedKitTacoJsonKeyValues
     = (Inl ErrorInvalidVersion, expectedKitTacoJsonKeyValues)"
  using select_failure_preserves [where registry = testKits and kid = "''InvalidKit''"
      and wellFormed = "\<lambda>v. v = ''5.1.1''" and writable = True
      and m = "[''cordova-cli'' \<mapsto> ''5.1.1'']" and version = "''InvalidCordovaCliVersion''"]
    select_failure_preserves [where registry = testKits
      and wellFormed = "\<lambda>v. v = ''5.1.1''" and writable = True
      and m = "[''kit'' \<mapsto> ''5.1.1-Kit'']" and version = "''InvalidCordovaCliVersion''"]
    select_failure_preserves [where registry = testKits
      and wellFormed = "\<lambda>v. v = ''5.1.1''" and writable = True
      and m = expectedKitTacoJsonKeyValues and version = "''InvalidCordovaCliVersion''"]
  by (simp add: testKits_lookup)

text \<open>
  Claim C7. The telemetry of a successful \<open>select\<close> records the sub-command and the
  option used, the kit identifier or the CLI version, neither marked personally
  identifiable; the value of the \<open>json\<close> option, a path, is marked personally
  identifiable.
\<close>

theorem select_telemetry:
  "(select registry wellFormed writable (TargetKit kid) m = (Inr t, m') \<longrightarrow>
      t = [''options.kit'' \<mapsto> \<lparr>isPii = False, propValue = kid\<rparr>,
           ''subCommand'' \<mapsto> \<lparr>isPii = False, propValue = ''select''\<rparr>]) \<and>
   (select registry wellFormed writable (TargetCordova version) m = (Inr t, m') \<longrightarrow>
      t = [''options.cordova'' \<mapsto> \<lparr>isPii = False, propValue = version\<rparr>,
           ''subCommand'' \<mapsto> \<lparr>isPii = False, propValue = ''select''\<rparr>]) \<and>
   (kitList kitFilter (Some path) m = (Inr t, m') \<longrightarrow>
      t ''options.json'' = Some \<lparr>isPii = True, propValue = path\<rparr> \<and>
      t ''subCommand'' = Some \<lparr>isPii = False, propValue = ''list''\<rparr>)"
  by (auto simp: select_def resolveKit_def resolveCordovaVersion_def writeManifest_def
      kitList_def telemetryOf_def split: option.splits if_splits)

theorem select_telemetry_witness:
  "select testKits (\<lambda>v. v = ''5.1.1'') True (TargetKit ''5.1.1-Kit'') expectedCliTacoJsonKeyValues
     = (Inr [''options.kit'' \<mapsto> \<lparr>isPii = False, propValue = ''5.1.1-Kit''\<rparr>,
             ''subCommand'' \<mapsto> \<lparr>isPii = False, propValue = ''select''\<rparr>],
        expectedKitTacoJsonKeyValues) \<and>
   select testKits (\<lambda>v. v = ''5.1.1'') True (TargetCordova ''5.1.1'') expectedKitTacoJsonKeyValues
     = (Inr [''options.cordova'' \<mapsto> \<lparr>isPii = False, propValue = ''5.1.1''\<rparr>,
             ''subCommand'' \<mapsto> \<lparr>isPii = False, propValue = ''select''\<rparr>],
        expectedCliTacoJsonKeyValues) \<and>
   fst (kitList None (Some ''temp.json'') expectedCliTacoJsonKeyValues)
     = Inr [''options.json'' \<mapsto> \<lparr>isPii = True, propValue = ''temp.json''\<rparr>,
            ''subCommand'' \<mapsto> \<lparr>isPii = False, propValue = ''list''\<rparr>]"
proof -
  obtain t1 where k: "select testKits (\<lambda>v. v = ''5.1.1'') True (TargetKit ''5.1.1-Kit'')
      expectedCliTacoJsonKeyValues = (Inr t1, expectedKitTacoJsonKeyValues)"
    by (simp add: select_kit_ok [OF testKits_lookup(1)] expectedKitTacoJsonKeyValues_def)
  obtain t2 where c: "select testKits (\<lambda>v. v = ''5.1.1'') True (TargetCordova ''5.1.1'')
      expectedKitTacoJsonKeyValues = (Inr t2, expectedCliTacoJsonKeyValues)"
    by (simp add: select_cordova_ok expectedCliTacoJsonKeyValues_def)
  from select_telemetry [where registry = testKits and wellFormed = "\<lambda>v. v = ''5.1.1''"
      and writable = True and kid = "''5.1.1-Kit''" and m = expectedCliTacoJsonKeyValues
      and t = t1 and m' = expectedKitTacoJsonKeyValues] k
  have 1: "t1 = [''options.kit'' \<mapsto> \<lparr>isPii = False, propValue = ''5.1.1-Kit''\<rparr>,
             ''subCommand'' \<mapsto> \<lparr>isPii = False, propValue = ''select''\<rparr>]" by blast
  from select_telemetry [where registry = testKits and wellFormed = "\<lambda>v. v = ''5.1.1''"
      and writable = True and version = "''5.1.1''" and m = expectedKitTacoJsonKeyValues
      and t = t2 and m' = expectedCliTacoJsonKeyValues] c
  have 2: "t2 = [''options.cordova'' \<mapsto> \<lparr>isPii = False, propValue = ''5.1.1''\<rparr>,
             ''subCommand'' \<mapsto> \<lparr>isPii = False, propValue = ''select''\<rparr>]" by blast
  show ?thesis using k c 1 2 by (simp add: kit_ts_list_json)
qed

end
